theory Spec2Isabelle
  imports Main
begin

section \<open>Data model\<close>

text \<open>
  The parsers of \<^verbatim>\<open>ParserCombinators.ts\<close> are generic in the result type and the
  combinators build heterogeneous arrays of results, so results are modelled by one type of
  JavaScript values: \<^verbatim>\<open>undefined\<close>, strings, numbers and arrays.
\<close>

datatype val = Undefined | Str string | Num int | Arr "val list"

text \<open>
  \<^verbatim>\<open>ParserError\<close>: the object literals of the source carry the fields \<^verbatim>\<open>info\<close>,
  \<^verbatim>\<open>combinator\<close>, \<^verbatim>\<open>index\<close> and the optional counters \<^verbatim>\<open>nparser\<close> and \<^verbatim>\<open>nmatches\<close>.
\<close>

record perror =
  info :: string
  combinator :: string
  eindex :: nat
  nparser :: "int option"
  nmatches :: "nat option"

text \<open>
  \<^verbatim>\<open>ParserState\<close>: the source reads the fields \<^verbatim>\<open>index\<close>, \<^verbatim>\<open>result\<close> and \<^verbatim>\<open>error\<close>;
  the test \<^verbatim>\<open>if (state.error)\<close> is \<open>error s \<noteq> None\<close>.
\<close>

record state =
  input :: string
  index :: nat
  result :: val
  error :: "perror option"

text \<open>
  Modelled from the spec: the three state constructors of \<^verbatim>\<open>ParserState.ts\<close>, which is not
  among the sources. \<^verbatim>\<open>update\<close> is the spec's \<open>advance(newIndex, newResult)\<close>: a
  successful state with updated position and result, error cleared.
\<close>

definition update :: "state \<Rightarrow> nat \<Rightarrow> val \<Rightarrow> state" where
  "update s i r = s\<lparr>index := i, result := r, error := None\<rparr>"

text \<open>
  Modelled from the spec: \<^verbatim>\<open>resultify\<close> is the spec's \<open>replaceResult(newResult)\<close>: a
  successful state with the same index, error cleared, result overwritten.
\<close>

definition resultify :: "state \<Rightarrow> val \<Rightarrow> state" where
  "resultify s r = s\<lparr>result := r, error := None\<rparr>"

text \<open>
  Modelled from the spec: \<^verbatim>\<open>errorify\<close> is the spec's \<open>fail(errorRecord)\<close>: an erroring
  state whose index is the one of the state it is called on; the result of a failed step is
  absent (section 4.2 of the spec).
\<close>

definition errorify :: "state \<Rightarrow> perror \<Rightarrow> state" where
  "errorify s e = s\<lparr>result := Undefined, error := Some e\<rparr>"

text \<open>
  A transition function may return a state, throw (\<^verbatim>\<open>contextual\<close> does), or run forever
  (the \<^verbatim>\<open>while\<close> loops of \<^verbatim>\<open>many\<close> and \<^verbatim>\<open>__manyJoin\<close>): \<open>None\<close> is a run that does not
  return, \<open>Some (Throws msg)\<close> a thrown \<^verbatim>\<open>Error\<close>, \<open>Some (Returns s)\<close> a returned state.
  A \<^verbatim>\<open>Parser\<close> holds nothing but its \<^verbatim>\<open>transformer\<close>, so a parser is its transformer.
\<close>

datatype 'a outcome = Throws string | Returns 'a

type_synonym parser = "state \<Rightarrow> state outcome option"

section \<open>sequenceOf\<close>

text \<open>
  The local variables of the loops: \<^verbatim>\<open>nextState\<close> and \<^verbatim>\<open>results\<close> occur in
  \<^verbatim>\<open>sequenceOf\<close> and in \<^verbatim>\<open>__manyJoin\<close>, the others in one of them. The parameter
  \<^verbatim>\<open>min\<close> of the source is written \<open>mn\<close> throughout.
\<close>

record loop_vars =
  nextState :: state
  results :: "val list"

record seq_vars = loop_vars +
  finalError :: "perror option"
  psucceed :: int
  lastIndex :: nat

fun sequenceOf_loop :: "parser list \<Rightarrow> seq_vars \<Rightarrow> seq_vars outcome option" where
  "sequenceOf_loop [] v = Some (Returns v)"
| "sequenceOf_loop (parser # parsers) v =
     (case parser (nextState v) of
        None \<Rightarrow> None
      | Some (Throws msg) \<Rightarrow> Some (Throws msg)
      | Some (Returns n) \<Rightarrow>
          (case error n of
             Some err \<Rightarrow>
               sequenceOf_loop parsers
                 (v\<lparr>nextState := n, finalError := Some err,
                    psucceed := psucceed v - 1 + 1, results := results v @ [result n]\<rparr>)
           | None \<Rightarrow>
               sequenceOf_loop parsers
                 (v\<lparr>nextState := n, lastIndex := index n,
                    psucceed := psucceed v + 1, results := results v @ [result n]\<rparr>)))"

definition sequenceOf :: "parser list \<Rightarrow> int \<Rightarrow> parser" where
  "sequenceOf parsers mn inputState =
     (if error inputState \<noteq> None then Some (Returns inputState)
      else
        (case sequenceOf_loop parsers
                \<lparr>nextState = inputState, results = [], finalError = None,
                 psucceed = 0, lastIndex = 0\<rparr> of
           None \<Rightarrow> None
         | Some (Throws msg) \<Rightarrow> Some (Throws msg)
         | Some (Returns v) \<Rightarrow>
             (case finalError v of
                Some fe \<Rightarrow>
                  if psucceed v < mn \<or> mn = - 1
                  then Some (Returns (errorify (nextState v)
                         (fe\<lparr>combinator := ''sequenceOf'', nparser := Some (psucceed v)\<rparr>)))
                  else Some (Returns (update (nextState v) (lastIndex v) (Arr (results v))))
              | None \<Rightarrow>
                  Some (Returns (update (nextState v) (lastIndex v) (Arr (results v)))))))"

section \<open>choice\<close>

fun choice_loop :: "parser list \<Rightarrow> state \<Rightarrow> state option outcome option" where
  "choice_loop [] inputState = Some (Returns None)"
| "choice_loop (parser # parsers) inputState =
     (case parser inputState of
        None \<Rightarrow> None
      | Some (Throws msg) \<Rightarrow> Some (Throws msg)
      | Some (Returns n) \<Rightarrow>
          if error n = None then Some (Returns (Some n))
          else choice_loop parsers inputState)"

definition choice :: "parser list \<Rightarrow> parser" where
  "choice parsers inputState =
     (if error inputState \<noteq> None then Some (Returns inputState)
      else
        (case choice_loop parsers inputState of
           None \<Rightarrow> None
         | Some (Throws msg) \<Rightarrow> Some (Throws msg)
         | Some (Returns (Some n)) \<Rightarrow> Some (Returns n)
         | Some (Returns None) \<Rightarrow>
             Some (Returns (errorify inputState
               \<lparr>info = ''Unable to match with any parser'', combinator = ''choice'',
                eindex = index inputState, nparser = None, nmatches = None\<rparr>))))"

section \<open>many\<close>

text \<open>Template literals print numbers in decimal.\<close>

fun show_nat :: "nat \<Rightarrow> string" where
  "show_nat n =
     (if n < 10 then [char_of (48 + n)]
      else show_nat (n div 10) @ [char_of (48 + n mod 10)])"

declare show_nat.simps [simp del]

definition show_int :: "int \<Rightarrow> string" where
  "show_int i = (if i < 0 then CHR ''-'' # show_nat (nat (- i)) else show_nat (nat i))"

text \<open>
  The \<^verbatim>\<open>while (!done)\<close> loop of \<^verbatim>\<open>many\<close>: it runs for as long as the parser succeeds,
  so it need not return; the loop returns the last state and the accumulated results.
\<close>

partial_function (option) many_loop ::
  "parser \<Rightarrow> state \<Rightarrow> val list \<Rightarrow> (state \<times> val list) outcome option" where
  "many_loop parser st rs =
     (case parser st of
        None \<Rightarrow> None
      | Some (Throws msg) \<Rightarrow> Some (Throws msg)
      | Some (Returns n) \<Rightarrow>
          if error n \<noteq> None then Some (Returns (n, rs))
          else many_loop parser n (rs @ [result n]))"

declare many_loop.simps [code]

definition many :: "parser \<Rightarrow> int \<Rightarrow> parser" where
  "many parser mn inputState =
     (if error inputState \<noteq> None then Some (Returns inputState)
      else
        (case many_loop parser inputState [] of
           None \<Rightarrow> None
         | Some (Throws msg) \<Rightarrow> Some (Throws msg)
         | Some (Returns (n, rs)) \<Rightarrow>
             if int (length rs) < mn
             then Some (Returns (errorify inputState
                    \<lparr>info = ''Unable to match at least '' @ show_int mn @
                            '' input(s), matched '' @ show_nat (length rs) @ '' instead'',
                     combinator = ''many'', eindex = index inputState,
                     nparser = None, nmatches = Some (length rs)\<rparr>))
             else Some (Returns (resultify n (Arr rs)))))"

section \<open>The Parser class\<close>

text \<open>
  Modelled from the spec: the composition operators of \<^verbatim>\<open>Parser.ts\<close>, which is not among
  the sources. \<^verbatim>\<open>map\<close> is the spec's value-map: it runs the original and, only if it
  succeeded, applies the function to the result, preserving the index; errors pass through
  unchanged. The function is JavaScript code and may throw.
\<close>

definition map_parser :: "parser \<Rightarrow> (val \<Rightarrow> val outcome) \<Rightarrow> parser" where
  "map_parser p f s =
     (case p s of
        None \<Rightarrow> None
      | Some (Throws msg) \<Rightarrow> Some (Throws msg)
      | Some (Returns n) \<Rightarrow>
          if error n \<noteq> None then Some (Returns n)
          else (case f (result n) of
                  Throws msg \<Rightarrow> Some (Throws msg)
                | Returns r \<Rightarrow> Some (Returns (resultify n r))))"

text \<open>
  Modelled from the spec: \<^verbatim>\<open>mapError\<close> is the spec's error-map: it runs the original and,
  only if it failed, replaces the error record by the function's value. The source hands the
  function the failed state (\<^verbatim>\<open>from => ({ ...from.error, combinator: 'join' })\<close>).
\<close>

definition mapError :: "parser \<Rightarrow> (state \<Rightarrow> perror) \<Rightarrow> parser" where
  "mapError p f s =
     (case p s of
        None \<Rightarrow> None
      | Some (Throws msg) \<Rightarrow> Some (Throws msg)
      | Some (Returns n) \<Rightarrow>
          if error n \<noteq> None then Some (Returns (errorify n (f n)))
          else Some (Returns n))"

text \<open>
  Modelled from the spec: \<^verbatim>\<open>chain\<close> is the spec's dependent-chain: it runs the original;
  on success it calls the function with the result to obtain the next parser and runs that
  against the post-success state; on failure it short-circuits without calling the function.
  The function is JavaScript code and may throw instead of returning a parser.
\<close>

definition chain :: "parser \<Rightarrow> (val \<Rightarrow> parser outcome) \<Rightarrow> parser" where
  "chain p f s =
     (case p s of
        None \<Rightarrow> None
      | Some (Throws msg) \<Rightarrow> Some (Throws msg)
      | Some (Returns n) \<Rightarrow>
          if error n \<noteq> None then Some (Returns n)
          else (case f (result n) of
                  Throws msg \<Rightarrow> Some (Throws msg)
                | Returns q \<Rightarrow> q n))"

text \<open>
  Modelled from the spec: \<^verbatim>\<open>Parser.void\<close>, the trivial parser that succeeds
  unconditionally without consuming input and carries no meaningful result.
\<close>

definition void :: parser where
  "void s = Some (Returns (resultify s Undefined))"

text \<open>
  Modelled from the spec: \<^verbatim>\<open>succeed\<close> of \<^verbatim>\<open>ParserCreators.ts\<close>, which is not among the
  sources: a parser that always succeeds with the value and consumes nothing.
\<close>

definition succeed :: "val \<Rightarrow> parser" where
  "succeed v s = Some (Returns (resultify s v))"

text \<open>
  The arrow functions \<^verbatim>\<open>results => results[1]\<close>: indexing an array or a string out of
  range, or a number, gives \<^verbatim>\<open>undefined\<close>; indexing \<^verbatim>\<open>undefined\<close> throws a TypeError.
\<close>

fun js_index :: "nat \<Rightarrow> val \<Rightarrow> val outcome" where
  "js_index i (Arr xs) = Returns (if i < length xs then xs ! i else Undefined)"
| "js_index i (Str cs) = Returns (if i < length cs then Str [cs ! i] else Undefined)"
| "js_index i (Num k) = Returns Undefined"
| "js_index i Undefined = Throws ''TypeError''"

text \<open>
  The arrow functions \<^verbatim>\<open>from => ({ ...from.error, combinator: name })\<close>. They are called
  on failed states only; spreading an absent error would leave the other fields absent,
  which is written here as empty fields.
\<close>

definition restamp :: "string \<Rightarrow> state \<Rightarrow> perror" where
  "restamp name from =
     (case error from of
        Some e \<Rightarrow> e\<lparr>combinator := name\<rparr>
      | None \<Rightarrow> \<lparr>info = [], combinator = name, eindex = 0, nparser = None, nmatches = None\<rparr>)"

section \<open>between\<close>

text \<open>\<^verbatim>\<open>tuple\<close> of \<^verbatim>\<open>index.ts\<close> returns its arguments as an array.\<close>

definition between :: "parser \<Rightarrow> parser \<Rightarrow> parser \<Rightarrow> parser" where
  "between left right content = map_parser (sequenceOf [left, content, right] (- 1)) (js_index 1)"

section \<open>join and joinWJR\<close>

text \<open>
  The loop of \<^verbatim>\<open>__join\<close> that builds \<^verbatim>\<open>joinedParsers\<close>; \<open>starts\<close> and the list built
  so far are its variables.
\<close>

fun join_loop :: "parser list \<Rightarrow> parser \<Rightarrow> bool \<Rightarrow> bool \<Rightarrow> parser list \<Rightarrow> parser list" where
  "join_loop [] joiner joinResults starts joinedParsers = joinedParsers"
| "join_loop (parser # parsers) joiner joinResults starts joinedParsers =
     (if starts then join_loop parsers joiner joinResults False (joinedParsers @ [parser])
      else if joinResults
      then join_loop parsers joiner joinResults False (joinedParsers @ [joiner] @ [parser])
      else join_loop parsers joiner joinResults False
             (joinedParsers @ [map_parser (sequenceOf [joiner, parser] (- 1)) (js_index 1)]))"

text \<open>\<^verbatim>\<open>__join\<close> of the source.\<close>

definition join_internal :: "parser list \<Rightarrow> parser \<Rightarrow> int \<Rightarrow> bool \<Rightarrow> parser" where
  "join_internal parsers joiner mn joinResults =
     mapError (sequenceOf (join_loop parsers joiner joinResults True []) mn) (restamp ''join'')"

definition join :: "parser list \<Rightarrow> parser \<Rightarrow> int \<Rightarrow> parser" where
  "join parsers joiner mn = join_internal parsers joiner mn False"

definition joinWJR :: "parser list \<Rightarrow> parser \<Rightarrow> int \<Rightarrow> parser" where
  "joinWJR parsers joiner mn = join_internal parsers joiner mn True"

section \<open>manyJoin and manyJoinWJR\<close>

text \<open>
  The variables of the \<^verbatim>\<open>while (!done)\<close> loop of \<^verbatim>\<open>__manyJoin\<close>; \<open>isDone\<close> is the
  source's \<^verbatim>\<open>done\<close>.
\<close>

record mj_vars = loop_vars +
  isDone :: bool
  starts :: bool
  np :: nat

text \<open>The first half of the loop body: the joiner, skipped in the first iteration.\<close>

definition manyJoin_joiner :: "parser \<Rightarrow> bool \<Rightarrow> mj_vars \<Rightarrow> mj_vars outcome option" where
  "manyJoin_joiner joiner joinResults v =
     (if starts v then Some (Returns (v\<lparr>starts := False\<rparr>))
      else
        (case joiner (nextState v) of
           None \<Rightarrow> None
         | Some (Throws msg) \<Rightarrow> Some (Throws msg)
         | Some (Returns n) \<Rightarrow>
             if error n \<noteq> None then Some (Returns (v\<lparr>nextState := n, isDone := True\<rparr>))
             else if joinResults
             then Some (Returns (v\<lparr>nextState := n, results := results v @ [result n]\<rparr>))
             else Some (Returns (v\<lparr>nextState := n\<rparr>))))"

text \<open>
  The second half of the loop body: the main parser is run on \<^verbatim>\<open>nextState\<close> whatever
  the joiner did.
\<close>

definition manyJoin_parser :: "parser \<Rightarrow> mj_vars \<Rightarrow> mj_vars outcome option" where
  "manyJoin_parser parser v =
     (case parser (nextState v) of
        None \<Rightarrow> None
      | Some (Throws msg) \<Rightarrow> Some (Throws msg)
      | Some (Returns n) \<Rightarrow>
          if error n \<noteq> None then Some (Returns (v\<lparr>nextState := n, isDone := True\<rparr>))
          else Some (Returns (v\<lparr>nextState := n, results := results v @ [result n],
                                np := np v + 1\<rparr>)))"

partial_function (option) manyJoin_loop ::
  "parser \<Rightarrow> parser \<Rightarrow> bool \<Rightarrow> mj_vars \<Rightarrow> mj_vars outcome option" where
  "manyJoin_loop parser joiner joinResults v =
     (if isDone v then Some (Returns v)
      else
        (case manyJoin_joiner joiner joinResults v of
           None \<Rightarrow> None
         | Some (Throws msg) \<Rightarrow> Some (Throws msg)
         | Some (Returns v1) \<Rightarrow>
             (case manyJoin_parser parser v1 of
                None \<Rightarrow> None
              | Some (Throws msg) \<Rightarrow> Some (Throws msg)
              | Some (Returns v2) \<Rightarrow> manyJoin_loop parser joiner joinResults v2)))"

declare manyJoin_loop.simps [code]

text \<open>\<^verbatim>\<open>__manyJoin\<close> of the source.\<close>

definition manyJoin_internal :: "parser \<Rightarrow> parser \<Rightarrow> int \<Rightarrow> bool \<Rightarrow> parser" where
  "manyJoin_internal parser joiner mn joinResults inputState =
     (if error inputState \<noteq> None then Some (Returns inputState)
      else
        (case manyJoin_loop parser joiner joinResults
                \<lparr>nextState = inputState, results = [], isDone = False, starts = True, np = 0\<rparr> of
           None \<Rightarrow> None
         | Some (Throws msg) \<Rightarrow> Some (Throws msg)
         | Some (Returns v) \<Rightarrow>
             if int (np v) < mn
             then Some (Returns (errorify inputState
                    \<lparr>info = ''Unable to match at least '' @ show_int mn @
                            '' input(s), matched '' @ show_nat (length (results v)) @ '' instead'',
                     combinator = ''manyJoin'', eindex = index inputState,
                     nparser = None, nmatches = Some (length (results v))\<rparr>))
             else Some (Returns (resultify (nextState v) (Arr (results v))))))"

definition manyJoin :: "parser \<Rightarrow> parser \<Rightarrow> int \<Rightarrow> parser" where
  "manyJoin parser joiner mn = manyJoin_internal parser joiner mn False"

definition manyJoinWJR :: "parser \<Rightarrow> parser \<Rightarrow> int \<Rightarrow> parser" where
  "manyJoinWJR parser joiner mn = manyJoin_internal parser joiner mn True"

section \<open>contextual and stateContextual\<close>

text \<open>
  What a generator hands out at a \<^verbatim>\<open>yield\<close>: the type says a \<^verbatim>\<open>Parser\<close>, the source
  checks it at run time (\<^verbatim>\<open>instanceof Parser\<close>), so a yielded value is a parser or some
  other value.
\<close>

datatype yielded = YParser parser | YOther val

text \<open>
  A started generator is what \<^verbatim>\<open>iterator.next\<close> gives: it is done with a final value, or
  it yields and waits to be resumed with the value sent in by the next call of
  \<^verbatim>\<open>iterator.next\<close>. Generators that complete after finitely many resumptions are
  covered. \<^verbatim>\<open>generator()\<close> starts a fresh one at each run of the parser.
\<close>

datatype gen = GDone val | GYield yielded "val \<Rightarrow> gen"

text \<open>
  \<^verbatim>\<open>runStep\<close>: the argument is the iteration obtained by \<^verbatim>\<open>iterator.next(next)\<close>; the
  function either throws or returns a parser.
\<close>

primrec runStep :: "gen \<Rightarrow> parser outcome" where
  "runStep (GDone v) = Returns (succeed v)"
| "runStep (GYield y resume) =
     (case y of
        YOther x \<Rightarrow> Throws ''contextual: yielded values must always be parsers''
      | YParser nextParser \<Rightarrow>
          Returns (mapError (chain nextParser (\<lambda>next. runStep (resume next)))
                     (restamp ''contextual'')))"

definition contextual :: "gen \<Rightarrow> parser" where
  "contextual generator = chain void (\<lambda>u. runStep generator)"

text \<open>
  The generator of \<^verbatim>\<open>stateContextual\<close> is resumed with parser states and returns one.
\<close>

datatype sgen = SDone state | SYield yielded "state \<Rightarrow> sgen"

text \<open>
  \<^verbatim>\<open>transformStep\<close>: the first argument is the iteration obtained by
  \<^verbatim>\<open>iterator.next(next)\<close> (the first call of \<^verbatim>\<open>next\<close> starts the generator and its
  argument is dropped, as JavaScript does).
\<close>

primrec transformStep :: "sgen \<Rightarrow> state \<Rightarrow> state outcome option" where
  "transformStep (SDone v) next = Some (Returns v)"
| "transformStep (SYield y resume) next =
     (case y of
        YOther x \<Rightarrow> Some (Throws ''stateContextual: yielded values must always be parsers'')
      | YParser nextParser \<Rightarrow>
          (case nextParser next of
             None \<Rightarrow> None
           | Some (Throws msg) \<Rightarrow> Some (Throws msg)
           | Some (Returns n) \<Rightarrow> transformStep (resume n) n))"

definition stateContextual :: "sgen \<Rightarrow> parser" where
  "stateContextual generator inputState = transformStep generator inputState"

section \<open>Leaf matchers\<close>

text \<open>
  Modelled from the spec: leaf matchers in the sense of section 6 of the spec (the ones of
  \<^verbatim>\<open>ParserCreators.ts\<close> are not among the sources): given a successful state they return
  \<open>advance\<close> after consuming input or \<open>fail\<close> at the current index; given an erroring
  state they return it unchanged. \<open>str\<close> matches a literal, \<open>digit\<close> one decimal digit,
  \<open>num\<close> a non-empty run of decimal digits read as a number. They serve as concrete
  children of the combinators.
\<close>

definition leaf_error :: "string \<Rightarrow> state \<Rightarrow> perror" where
  "leaf_error name s =
     \<lparr>info = ''Unable to match'', combinator = name, eindex = index s,
      nparser = None, nmatches = None\<rparr>"

definition str :: "string \<Rightarrow> parser" where
  "str lit s =
     (if error s \<noteq> None then Some (Returns s)
      else if take (length lit) (drop (index s) (input s)) = lit
      then Some (Returns (update s (index s + length lit) (Str lit)))
      else Some (Returns (errorify s (leaf_error ''str'' s))))"

definition is_digit :: "char \<Rightarrow> bool" where
  "is_digit c = ((48 :: nat) \<le> of_char c \<and> of_char c \<le> (57 :: nat))"

definition digit :: parser where
  "digit s =
     (if error s \<noteq> None then Some (Returns s)
      else
        (case drop (index s) (input s) of
           [] \<Rightarrow> Some (Returns (errorify s (leaf_error ''digit'' s)))
         | c # cs \<Rightarrow>
             if is_digit c then Some (Returns (update s (index s + 1) (Str [c])))
             else Some (Returns (errorify s (leaf_error ''digit'' s)))))"

definition num_of_digits :: "string \<Rightarrow> int" where
  "num_of_digits cs = foldl (\<lambda>a c. 10 * a + (of_char c - 48)) (0 :: int) cs"

definition num :: parser where
  "num s =
     (if error s \<noteq> None then Some (Returns s)
      else
        (let ds = takeWhile is_digit (drop (index s) (input s)) in
         if ds = [] then Some (Returns (errorify s (leaf_error ''num'' s)))
         else Some (Returns (update s (index s + length ds) (Num (num_of_digits ds))))))"

text \<open>A successful state at a position of an input, for concrete runs.\<close>

definition state_at :: "string \<Rightarrow> nat \<Rightarrow> state" where
  "state_at inp i = \<lparr>input = inp, index = i, result = Undefined, error = None\<rparr>"

section \<open>Descriptions of runs\<close>

text \<open>
  The properties below speak of runs of the child parsers. \<open>all_succeed ps s ts\<close>: the
  parsers \<open>ps\<close>, run in order from \<open>s\<close>, each on the state the one before returned, all
  succeed, and \<open>ts\<close> are the states they return.
\<close>

fun all_succeed :: "parser list \<Rightarrow> state \<Rightarrow> state list \<Rightarrow> bool" where
  "all_succeed [] s [] = True"
| "all_succeed (p # ps) s (t # ts) =
     (p s = Some (Returns t) \<and> error t = None \<and> all_succeed ps t ts)"
| "all_succeed ps s ts = False"

text \<open>
  \<open>joined_run ps joiner t pairs\<close>: from \<open>t\<close>, each parser of \<open>ps\<close> in turn is preceded
  by the joiner; all succeed; \<open>pairs\<close> holds, for each parser, the state the joiner
  returned and the state the parser returned.
\<close>

fun joined_run :: "parser list \<Rightarrow> parser \<Rightarrow> state \<Rightarrow> (state \<times> state) list \<Rightarrow> bool" where
  "joined_run [] joiner t [] = True"
| "joined_run (p # ps) joiner t ((u, t') # rest) =
     (joiner t = Some (Returns u) \<and> error u = None \<and>
      p u = Some (Returns t') \<and> error t' = None \<and> joined_run ps joiner t' rest)"
| "joined_run ps joiner t rest = False"

text \<open>
  \<open>alternating parser joiner t pairs\<close>: from \<open>t\<close>, rounds of the joiner followed by the
  one main parser, all successful.
\<close>

fun alternating :: "parser \<Rightarrow> parser \<Rightarrow> state \<Rightarrow> (state \<times> state) list \<Rightarrow> bool" where
  "alternating parser joiner t [] = True"
| "alternating parser joiner t ((u, t') # rest) =
     (joiner t = Some (Returns u) \<and> error u = None \<and>
      parser u = Some (Returns t') \<and> error t' = None \<and> alternating parser joiner t' rest)"

text \<open>
  A finished run of \<^verbatim>\<open>manyJoin\<close> with at least one match, in the words of the spec: the
  first attempt is the bare parser, which succeeds with \<open>t1\<close>; then come successful rounds
  of joiner and parser (\<open>pairs\<close>); in the last round the joiner returns \<open>u\<close>, the parser
  (which the loop runs on \<open>u\<close> whatever the joiner did) returns \<open>f\<close>, and one of the
  two has failed.
\<close>

definition manyJoin_run ::
  "parser \<Rightarrow> parser \<Rightarrow> state \<Rightarrow> state \<Rightarrow> (state \<times> state) list \<Rightarrow> state \<Rightarrow> state \<Rightarrow> bool" where
  "manyJoin_run parser joiner s t1 pairs u f =
     (parser s = Some (Returns t1) \<and> error t1 = None \<and>
      alternating parser joiner t1 pairs \<and>
      joiner (last (t1 # map snd pairs)) = Some (Returns u) \<and>
      parser u = Some (Returns f) \<and>
      (error u \<noteq> None \<or> error f \<noteq> None))"

text \<open>
  The successful matches of the main parser and of the joiner in such a run, and the values
  the run produces in order (the joiner's only when joiner results are wanted).
\<close>

definition main_matches :: "(state \<times> state) list \<Rightarrow> state \<Rightarrow> nat" where
  "main_matches pairs f = 1 + length pairs + (if error f = None then 1 else 0)"

definition joiner_matches :: "(state \<times> state) list \<Rightarrow> state \<Rightarrow> nat" where
  "joiner_matches pairs u = length pairs + (if error u = None then 1 else 0)"

definition run_results ::
  "bool \<Rightarrow> state \<Rightarrow> (state \<times> state) list \<Rightarrow> state \<Rightarrow> state \<Rightarrow> val list" where
  "run_results joinResults t1 pairs u f =
     result t1 #
     concat (map (\<lambda>(u', t'). (if joinResults then [result u'] else []) @ [result t']) pairs) @
     (if error u = None \<and> joinResults then [result u] else []) @
     (if error f = None then [result f] else [])"

text \<open>
  \<open>generator_after g s ns\<close>: the generator \<open>g\<close> yields parsers that succeed one after
  the other from \<open>s\<close>, returning the states \<open>ns\<close>; the value is what the generator does
  next, and the state reached.
\<close>

fun generator_after :: "gen \<Rightarrow> state \<Rightarrow> state list \<Rightarrow> (gen \<times> state) option" where
  "generator_after g s [] = Some (g, s)"
| "generator_after (GYield (YParser p) resume) s (n # ns) =
     (if p s = Some (Returns n) \<and> error n = None
      then generator_after (resume (result n)) n ns else None)"
| "generator_after g s (n # ns) = None"

text \<open>Running what \<^verbatim>\<open>runStep\<close> returns, or throwing what it throws.\<close>

definition run_gen :: "gen \<Rightarrow> state \<Rightarrow> state outcome option" where
  "run_gen g s = (case runStep g of Throws msg \<Rightarrow> Some (Throws msg) | Returns q \<Rightarrow> q s)"

section \<open>Properties of the state constructors\<close>

lemma errorify_simps [simp]:
  "error (errorify s e) = Some e" "index (errorify s e) = index s"
  "result (errorify s e) = Undefined" "input (errorify s e) = input s"
  by (simp_all add: errorify_def)

lemma update_simps [simp]:
  "error (update s i r) = None" "index (update s i r) = i"
  "result (update s i r) = r" "input (update s i r) = input s"
  by (simp_all add: update_def)

lemma resultify_simps [simp]:
  "error (resultify s r) = None" "index (resultify s r) = index s"
  "result (resultify s r) = r" "input (resultify s r) = input s"
  by (simp_all add: resultify_def)

section \<open>Short-circuit on an erroring state\<close>

lemma sequenceOf_erroring: "error s \<noteq> None \<Longrightarrow> sequenceOf ps mn s = Some (Returns s)"
  by (simp add: sequenceOf_def)

lemma map_parser_erroring:
  "p s = Some (Returns s) \<Longrightarrow> error s \<noteq> None \<Longrightarrow> map_parser p f s = Some (Returns s)"
  by (simp add: map_parser_def)

lemma mapError_erroring:
  "p s = Some (Returns s) \<Longrightarrow> error s = Some e \<Longrightarrow>
   mapError p (restamp name) s = Some (Returns (errorify s (e\<lparr>combinator := name\<rparr>)))"
  by (simp add: mapError_def restamp_def)

text \<open>
  Claim C1, as amended. The claim says that every combinator of the public API returns an
  already-erroring state unchanged. \<^verbatim>\<open>stateContextual\<close> has no such test: it starts the
  generator and returns what the generator returns (see the counterexample below). What
  holds: \<^verbatim>\<open>sequenceOf\<close>, \<^verbatim>\<open>choice\<close>, \<^verbatim>\<open>many\<close>, \<^verbatim>\<open>between\<close>, \<^verbatim>\<open>manyJoin\<close> and
  \<^verbatim>\<open>manyJoinWJR\<close>, invoked on a state whose error is present, return that very state;
  \<^verbatim>\<open>join\<close> and \<^verbatim>\<open>joinWJR\<close> consume nothing either and return the state failed with the
  same error record re-stamped with combinator name \<open>join\<close>.
\<close>

theorem C1_short_circuit:
  "error s = Some e \<Longrightarrow>
     sequenceOf ps mn s = Some (Returns s) \<and>
     choice ps s = Some (Returns s) \<and>
     many p mn s = Some (Returns s) \<and>
     between l r c s = Some (Returns s) \<and>
     manyJoin p j mn s = Some (Returns s) \<and>
     manyJoinWJR p j mn s = Some (Returns s) \<and>
     join ps j mn s = Some (Returns (errorify s (e\<lparr>combinator := ''join''\<rparr>))) \<and>
     joinWJR ps j mn s = Some (Returns (errorify s (e\<lparr>combinator := ''join''\<rparr>)))"
  by (simp add: sequenceOf_erroring choice_def many_def between_def map_parser_erroring
      manyJoin_def manyJoinWJR_def manyJoin_internal_def join_def joinWJR_def join_internal_def
      mapError_erroring)

theorem C1_short_circuit_witness:
  "error (errorify (state_at ''ab'' 1) (leaf_error ''str'' (state_at ''ab'' 1)))
     = Some (leaf_error ''str'' (state_at ''ab'' 1)) \<and>
   sequenceOf [digit] 1 (errorify (state_at ''ab'' 1) (leaf_error ''str'' (state_at ''ab'' 1)))
     = Some (Returns (errorify (state_at ''ab'' 1) (leaf_error ''str'' (state_at ''ab'' 1)))) \<and>
   many digit 1 (errorify (state_at ''ab'' 1) (leaf_error ''str'' (state_at ''ab'' 1)))
     = Some (Returns (errorify (state_at ''ab'' 1) (leaf_error ''str'' (state_at ''ab'' 1)))) \<and>
   join [digit] (str '','') 1 (errorify (state_at ''ab'' 1) (leaf_error ''str'' (state_at ''ab'' 1)))
     = Some (Returns (errorify (state_at ''ab'' 1)
         ((leaf_error ''str'' (state_at ''ab'' 1))\<lparr>combinator := ''join''\<rparr>)))"
  using C1_short_circuit
    [where s = "errorify (state_at ''ab'' 1) (leaf_error ''str'' (state_at ''ab'' 1))"
       and e = "leaf_error ''str'' (state_at ''ab'' 1)"
       and ps = "[digit]" and mn = 1 and p = digit and j = "str '',''"]
  by (simp add: errorify_def)

text \<open>
  Claim C1, counterexample: \<^verbatim>\<open>stateContextual\<close> with a generator that returns a state at
  once, invoked on an erroring state at index 1, returns the generator's state, which is
  successful and at index 0.
\<close>

theorem C1_stateContextual_counterexample:
  "error (errorify (state_at ''ab'' 1) (leaf_error ''str'' (state_at ''ab'' 1))) \<noteq> None \<and>
   stateContextual (SDone (state_at ''ab'' 0))
     (errorify (state_at ''ab'' 1) (leaf_error ''str'' (state_at ''ab'' 1)))
     = Some (Returns (state_at ''ab'' 0)) \<and>
   state_at ''ab'' 0 \<noteq> errorify (state_at ''ab'' 1) (leaf_error ''str'' (state_at ''ab'' 1))"
  by (simp add: stateContextual_def state_at_def errorify_def)

section \<open>sequenceOf: index and result\<close>

text \<open>
  Claim C2, evaluated at a failing input. The claim says that a combinator that succeeds
  never moves the index backwards, also for \<^verbatim>\<open>sequenceOf\<close> runs in which no child
  succeeds. \<^verbatim>\<open>sequenceOf\<close> starts \<^verbatim>\<open>lastIndex\<close> at 0, not at the index of the input
  state: \<^verbatim>\<open>sequenceOf([str('x')], 0)\<close> on the input \<open>ab\<close> at index 1 succeeds (no child
  need succeed) at index 0, and so does \<^verbatim>\<open>sequenceOf([])\<close>.
\<close>

theorem C2_sequenceOf_index_reset:
  "sequenceOf [str ''x''] 0 (state_at ''ab'' 1)
     = Some (Returns \<lparr>input = ''ab'', index = 0, result = Arr [Undefined], error = None\<rparr>) \<and>
   sequenceOf [] (- 1) (state_at ''ab'' 1)
     = Some (Returns \<lparr>input = ''ab'', index = 0, result = Arr [], error = None\<rparr>)"
  by (simp add: sequenceOf_def state_at_def str_def update_def errorify_def leaf_error_def)

text \<open>
  Claim C3. Let \<open>A\<close> return \<open>s1\<close> on a successful state \<open>s0\<close>, \<open>B\<close> return \<open>s2\<close> on
  \<open>s1\<close> and \<open>C\<close> return \<open>s3\<close> on \<open>s2\<close> (the states are threaded). Then
  \<^verbatim>\<open>sequenceOf([A, B, C])\<close> with \<open>min = -1\<close> returns a state, which is successful exactly
  when the three children succeeded; on success its result is the array of the three child
  results in order and its index is the one \<open>C\<close> reached; if any child failed it carries an
  error whose combinator name is \<open>sequenceOf\<close>.
\<close>

theorem C3_sequenceOf_strict:
  assumes "error s0 = None"
    and "A s0 = Some (Returns s1)" and "B s1 = Some (Returns s2)" and "C s2 = Some (Returns s3)"
  shows "\<exists>r. sequenceOf [A, B, C] (- 1) s0 = Some (Returns r) \<and>
           (error r = None \<longleftrightarrow> error s1 = None \<and> error s2 = None \<and> error s3 = None) \<and>
           (error r = None \<longrightarrow>
              result r = Arr [result s1, result s2, result s3] \<and> index r = index s3) \<and>
           (error r \<noteq> None \<longrightarrow> (\<exists>e. error r = Some e \<and> combinator e = ''sequenceOf''))"
  using assms by (auto simp add: sequenceOf_def split: option.splits)

theorem C3_sequenceOf_strict_witness:
  "\<exists>r. sequenceOf [str ''a'', str ''b'', str ''c''] (- 1) (state_at ''abc'' 0) = Some (Returns r) \<and>
        error r = None \<and> result r = Arr [Str ''a'', Str ''b'', Str ''c''] \<and> index r = 3"
  using C3_sequenceOf_strict
    [where ?s0.0 = "state_at ''abc'' 0" and A = "str ''a''" and B = "str ''b''" and C = "str ''c''"
       and ?s1.0 = "update (state_at ''abc'' 0) 1 (Str ''a'')"
       and ?s2.0 = "update (state_at ''abc'' 0) 2 (Str ''b'')"
       and ?s3.0 = "update (state_at ''abc'' 0) 3 (Str ''c'')"]
  by (auto simp add: str_def state_at_def update_def)

text \<open>
  Claim C4, as amended. The claim says that the entry of the failed \<open>B\<close> is
  \<^verbatim>\<open>undefined\<close>. \<^verbatim>\<open>sequenceOf\<close> pushes \<^verbatim>\<open>nextState.result\<close> of the state \<open>B\<close>
  returned, whatever it is (see the counterexample below). What holds: for
  \<^verbatim>\<open>sequenceOf([A, B], 1)\<close> on a successful state, if \<open>A\<close> succeeds with \<open>s1\<close> and \<open>B\<close>
  fails on \<open>s1\<close> with the state \<open>s2\<close>, the combinator succeeds, its result is the
  two-element array of \<open>A\<close>'s result and the result field of \<open>s2\<close>, and its index is the
  index of \<open>s1\<close>; the second entry is \<^verbatim>\<open>undefined\<close> when the failed state carries no
  result.
\<close>

theorem C4_sequenceOf_partial:
  assumes "error s0 = None"
    and "A s0 = Some (Returns s1)" and "error s1 = None"
    and "B s1 = Some (Returns s2)" and "error s2 = Some e"
  shows "\<exists>r. sequenceOf [A, B] 1 s0 = Some (Returns r) \<and> error r = None \<and>
           result r = Arr [result s1, result s2] \<and> index r = index s1 \<and>
           (result s2 = Undefined \<longrightarrow> result r = Arr [result s1, Undefined])"
  using assms by (simp add: sequenceOf_def)

theorem C4_sequenceOf_partial_witness:
  "\<exists>r. sequenceOf [str ''a'', str ''b''] 1 (state_at ''ac'' 0) = Some (Returns r) \<and>
        error r = None \<and> result r = Arr [Str ''a'', Undefined] \<and> index r = 1"
  using C4_sequenceOf_partial
    [where ?s0.0 = "state_at ''ac'' 0" and A = "str ''a''" and B = "str ''b''"
       and ?s1.0 = "update (state_at ''ac'' 0) 1 (Str ''a'')"
       and ?s2.0 = "errorify (update (state_at ''ac'' 0) 1 (Str ''a''))
                      (leaf_error ''str'' (update (state_at ''ac'' 0) 1 (Str ''a'')))"
       and e = "leaf_error ''str'' (update (state_at ''ac'' 0) 1 (Str ''a''))"]
  by (auto simp add: str_def state_at_def update_def)

text \<open>
  Claim C4, counterexample: \<open>A\<close> is \<^verbatim>\<open>str('a')\<close> and \<open>B\<close> is a \<^verbatim>\<open>stateContextual\<close>
  parser whose generator returns at once a failed state that carries the result \<open>junk\<close>.
  On the input \<open>ac\<close>, \<open>A\<close> succeeds with result \<open>a\<close> at index 1, \<open>B\<close> fails on that
  state, and \<^verbatim>\<open>sequenceOf([A, B], 1)\<close> succeeds at index 1 with the result
  \<open>[a, junk]\<close>, not \<open>[a, undefined]\<close>.
\<close>

theorem C4_failed_result_counterexample:
  "str ''a'' (state_at ''ac'' 0)
     = Some (Returns \<lparr>input = ''ac'', index = 1, result = Str ''a'', error = None\<rparr>) \<and>
   stateContextual
       (SDone \<lparr>input = ''ac'', index = 1, result = Str ''junk'',
               error = Some (leaf_error ''B'' (state_at ''ac'' 1))\<rparr>)
       \<lparr>input = ''ac'', index = 1, result = Str ''a'', error = None\<rparr>
     = Some (Returns \<lparr>input = ''ac'', index = 1, result = Str ''junk'',
                      error = Some (leaf_error ''B'' (state_at ''ac'' 1))\<rparr>) \<and>
   sequenceOf
       [str ''a'',
        stateContextual
          (SDone \<lparr>input = ''ac'', index = 1, result = Str ''junk'',
                  error = Some (leaf_error ''B'' (state_at ''ac'' 1))\<rparr>)]
       1 (state_at ''ac'' 0)
     = Some (Returns \<lparr>input = ''ac'', index = 1, result = Arr [Str ''a'', Str ''junk''],
                      error = None\<rparr>) \<and>
   Arr [Str ''a'', Str ''junk''] \<noteq> Arr [Str ''a'', Undefined]"
  by (simp add: sequenceOf_def stateContextual_def str_def state_at_def update_def)

section \<open>choice: alternatives\<close>

lemma choice_loop_failing:
  "\<forall>q\<in>set pre. \<exists>f. q s = Some (Returns f) \<and> error f \<noteq> None \<Longrightarrow>
   choice_loop (pre @ post) s = choice_loop post s"
  by (induction pre) auto

text \<open>
  Claim C6. On a successful state \<open>s\<close>, let every parser of \<open>pre\<close> fail when run on \<open>s\<close>
  itself. If the next parser \<open>p\<close>, run on \<open>s\<close> too, succeeds with \<open>t\<close>, then
  \<^verbatim>\<open>choice\<close> of \<open>pre\<close>, \<open>p\<close> and any further parsers returns \<open>t\<close> as it is. And
  \<^verbatim>\<open>choice\<close> of \<open>pre\<close> alone (every child fails) fails \<open>s\<close> with the error record of
  \<^verbatim>\<open>choice\<close>: the aggregate message, the index of \<open>s\<close>, and nothing of the children's
  errors.
\<close>

theorem C6_choice:
  assumes "error s = None"
      and "\<forall>q\<in>set pre. \<exists>f. q s = Some (Returns f) \<and> error f \<noteq> None"
  shows "(p s = Some (Returns t) \<and> error t = None \<longrightarrow>
            choice (pre @ p # post) s = Some (Returns t)) \<and>
         choice pre s = Some (Returns (errorify s
            \<lparr>info = ''Unable to match with any parser'', combinator = ''choice'',
             eindex = index s, nparser = None, nmatches = None\<rparr>))"
  using assms choice_loop_failing [of pre s "p # post"] choice_loop_failing [of pre s "[]"]
  by (simp add: choice_def)

theorem C6_choice_witness:
  "choice ([str ''a'', digit] @ str ''b'' # [str ''c'']) (state_at ''xb'' 1)
     = Some (Returns (update (state_at ''xb'' 1) 2 (Str ''b''))) \<and>
   choice [str ''a'', digit] (state_at ''xb'' 1)
     = Some (Returns (errorify (state_at ''xb'' 1)
          \<lparr>info = ''Unable to match with any parser'', combinator = ''choice'',
           eindex = 1, nparser = None, nmatches = None\<rparr>))"
  using C6_choice
    [where s = "state_at ''xb'' 1" and pre = "[str ''a'', digit]" and p = "str ''b''"
       and t = "update (state_at ''xb'' 1) 2 (Str ''b'')" and post = "[str ''c'']"]
  by (simp add: str_def digit_def is_digit_def state_at_def update_def)

section \<open>many: the returned state\<close>

text \<open>
  What \<^verbatim>\<open>many\<close> returns in general: when the parser succeeds with the states \<open>ts\<close>
  one after the other and then fails with the state \<open>f\<close>, and there are at least \<open>min\<close>
  matches, the returned state is \<open>f\<close> with the error cleared and the results of the
  matches as result; its index is the one of \<open>f\<close>.
\<close>

lemma many_loop_run:
  "all_succeed (replicate (length ts) p) s ts \<Longrightarrow>
   p (last (s # ts)) = Some (Returns f) \<Longrightarrow> error f \<noteq> None \<Longrightarrow>
   many_loop p s rs = Some (Returns (f, rs @ map result ts))"
proof (induction ts arbitrary: s rs)
  case Nil
  then show ?case by (subst many_loop.simps) simp
next
  case (Cons t ts)
  have "many_loop p s rs = many_loop p t (rs @ [result t])"
    using Cons.prems by (subst many_loop.simps) simp
  moreover have "many_loop p t (rs @ [result t]) = Some (Returns (f, (rs @ [result t]) @ map result ts))"
    using Cons.prems by (intro Cons.IH) (simp_all split: if_splits)
  ultimately show ?case by simp
qed

lemma many_run:
  assumes "error s = None" "all_succeed (replicate (length ts) p) s ts"
    and "p (last (s # ts)) = Some (Returns f)" "error f \<noteq> None" "mn \<le> int (length ts)"
  shows "many p mn s = Some (Returns (resultify f (Arr (map result ts))))"
  using assms many_loop_run [of ts p s f "[]"] by (simp add: many_def)

text \<open>
  Claim C5, evaluated at a failing input. The claim says that \<^verbatim>\<open>many\<close> ends at the index
  reached by the last successful match. \<^verbatim>\<open>many\<close> finalises the state of the failed
  attempt (\<^verbatim>\<open>nextState.resultify(results)\<close>), so it ends where the failed attempt stopped.
  For \<^verbatim>\<open>many(sequenceOf([str('a'), str('b')]))\<close> on the input \<open>aba\<close>: the first attempt
  succeeds and reaches index 2; the second attempt fails after its first child consumed the
  last \<open>a\<close>, in a state at index 3; \<^verbatim>\<open>many\<close> succeeds with the one match and index 3.
\<close>

theorem C5_many_index_of_failed_attempt:
  "sequenceOf [str ''a'', str ''b''] (- 1) (state_at ''aba'' 0)
     = Some (Returns \<lparr>input = ''aba'', index = 2, result = Arr [Str ''a'', Str ''b''],
                      error = None\<rparr>) \<and>
   sequenceOf [str ''a'', str ''b''] (- 1)
       \<lparr>input = ''aba'', index = 2, result = Arr [Str ''a'', Str ''b''], error = None\<rparr>
     = Some (Returns \<lparr>input = ''aba'', index = 3, result = Undefined,
           error = Some \<lparr>info = ''Unable to match'', combinator = ''sequenceOf'', eindex = 3,
                         nparser = Some 1, nmatches = None\<rparr>\<rparr>) \<and>
   many (sequenceOf [str ''a'', str ''b''] (- 1)) 0 (state_at ''aba'' 0)
     = Some (Returns \<lparr>input = ''aba'', index = 3, result = Arr [Arr [Str ''a'', Str ''b'']],
                      error = None\<rparr>)"
  by code_simp

section \<open>join and joinWJR: results\<close>

lemma sequenceOf_loop_all_succeed:
  "all_succeed ps (nextState v) ts \<Longrightarrow>
   sequenceOf_loop ps v =
     Some (Returns (v\<lparr>nextState := last (nextState v # ts),
                      results := results v @ map result ts,
                      psucceed := psucceed v + int (length ts),
                      lastIndex := (if ts = [] then lastIndex v else index (last ts))\<rparr>))"
proof (induction ps "nextState v" ts arbitrary: v rule: all_succeed.induct)
  case (1 s)
  then show ?case by simp
next
  case (2 p ps s t ts)
  then show ?case by (cases ts) simp_all
qed simp_all

lemma wrapped_success:
  assumes "error t = None" "joiner t = Some (Returns u)" "error u = None"
    "p u = Some (Returns t')" "error t' = None"
  shows "map_parser (sequenceOf [joiner, p] (- 1)) (js_index 1) t = Some (Returns t')"
  using assms by (cases t') (simp add: map_parser_def sequenceOf_def update_def resultify_def)

lemma join_loop_rest:
  "join_loop ps joiner w False acc =
     acc @ (if w then concat (map (\<lambda>q. [joiner, q]) ps)
            else map (\<lambda>q. map_parser (sequenceOf [joiner, q] (- 1)) (js_index 1)) ps)"
  by (induction ps arbitrary: acc) auto

lemma joined_run_WJR:
  "joined_run ps joiner t pairs \<Longrightarrow>
   all_succeed (concat (map (\<lambda>q. [joiner, q]) ps)) t (concat (map (\<lambda>(u, t'). [u, t']) pairs))"
  by (induction ps joiner t pairs rule: joined_run.induct) simp_all

lemma joined_run_wrapped:
  "joined_run ps joiner t pairs \<Longrightarrow> error t = None \<Longrightarrow>
   all_succeed (map (\<lambda>q. map_parser (sequenceOf [joiner, q] (- 1)) (js_index 1)) ps) t
     (map snd pairs)"
  by (induction ps joiner t pairs rule: joined_run.induct) (simp_all add: wrapped_success [simplified])

lemma sequenceOf_all_succeed:
  assumes "error s = None" "all_succeed ps s ts"
  shows "sequenceOf ps mn s =
     Some (Returns (update (last (s # ts)) (if ts = [] then 0 else index (last ts))
                      (Arr (map result ts))))"
  using assms sequenceOf_loop_all_succeed
    [of ps "\<lparr>nextState = s, results = [], finalError = None, psucceed = 0, lastIndex = 0\<rparr>" ts]
  by (simp add: sequenceOf_def)

text \<open>
  Claim C7. On a successful state let the first main parser succeed with \<open>t1\<close> and let
  every further main parser succeed after a successful joiner (\<open>pairs\<close> holds the joiner's
  and the parser's states). Then \<^verbatim>\<open>join\<close> succeeds and its result is the array of the
  main parsers' results alone, and \<^verbatim>\<open>joinWJR\<close> succeeds and its result is the array of
  the main parsers' results with each joiner's result before the result of the parser it
  precedes; both end at the index of the last main parser. The witness is the spec's
  example on the input \<open>1,2\<close>.
\<close>

theorem C7_join_results:
  assumes "error s = None" and "p s = Some (Returns t1)" and "error t1 = None"
    and "joined_run ps joiner t1 pairs"
  shows "(\<exists>r. join (p # ps) joiner mn s = Some (Returns r) \<and> error r = None \<and>
              index r = index (last (t1 # map snd pairs)) \<and>
              result r = Arr (result t1 # map (\<lambda>(u, t). result t) pairs)) \<and>
         (\<exists>r. joinWJR (p # ps) joiner mn s = Some (Returns r) \<and> error r = None \<and>
              index r = index (last (t1 # map snd pairs)) \<and>
              result r = Arr (result t1 # concat (map (\<lambda>(u, t). [result u, result t]) pairs)))"
proof -
  have a: "all_succeed (p # map (\<lambda>q. map_parser (sequenceOf [joiner, q] (- 1)) (js_index 1)) ps)
             s (t1 # map snd pairs)"
    using assms joined_run_wrapped by simp
  have b: "all_succeed (p # concat (map (\<lambda>q. [joiner, q]) ps)) s
             (t1 # concat (map (\<lambda>(u, t'). [u, t']) pairs))"
    using assms joined_run_WJR by simp
  have c: "map result (concat (map (\<lambda>(u, t'). [u, t']) pairs))
             = concat (map (\<lambda>(u, t). [result u, result t]) pairs)"
    by (induction pairs) auto
  have d: "map result (map snd pairs) = map (\<lambda>(u, t). result t) pairs"
    by (induction pairs) auto
  have e: "last (t1 # concat (map (\<lambda>(u, t'). [u, t']) pairs)) = last (t1 # map snd pairs)"
    by (induction pairs arbitrary: t1) auto
  show ?thesis
    using e sequenceOf_all_succeed [OF assms(1) a, of mn] sequenceOf_all_succeed [OF assms(1) b, of mn] c d
    by (simp add: join_def joinWJR_def join_internal_def join_loop_rest mapError_def)
qed


theorem C7_join_results_witness:
  "(\<exists>r. join [num, num] (str '','') (- 1) (state_at ''1,2'' 0) = Some (Returns r) \<and>
        error r = None \<and> index r = 3 \<and> result r = Arr [Num 1, Num 2]) \<and>
   (\<exists>r. joinWJR [num, num] (str '','') (- 1) (state_at ''1,2'' 0) = Some (Returns r) \<and>
        error r = None \<and> index r = 3 \<and> result r = Arr [Num 1, Str '','', Num 2])"
  using C7_join_results
    [where s = "state_at ''1,2'' 0" and p = num and ps = "[num]" and joiner = "str '',''"
       and mn = "- 1" and ?t1.0 = "update (state_at ''1,2'' 0) 1 (Num 1)"
       and pairs = "[(update (state_at ''1,2'' 0) 2 (Str '',''),
                      update (state_at ''1,2'' 0) 3 (Num 2))]"]
  by (simp add: num_def str_def is_digit_def num_of_digits_def state_at_def update_def)

section \<open>manyJoin and manyJoinWJR: runs\<close>

lemma manyJoin_loop_rounds:
  "alternating p j (nextState v) pairs \<Longrightarrow> \<not> isDone v \<Longrightarrow> \<not> starts v \<Longrightarrow>
   manyJoin_loop p j w v =
   manyJoin_loop p j w
     (v\<lparr>nextState := last (nextState v # map snd pairs),
        results := results v @
          concat (map (\<lambda>(u', t'). (if w then [result u'] else []) @ [result t']) pairs),
        np := np v + length pairs\<rparr>)"
proof (induction pairs arbitrary: v)
  case Nil
  then show ?case by simp
next
  case (Cons a pairs)
  obtain u t where a: "a = (u, t)" by (cases a)
  let ?v2 = "v\<lparr>nextState := t, results := results v @ (if w then [result u] else []) @ [result t],
               np := np v + 1\<rparr>"
  have step: "manyJoin_loop p j w v = manyJoin_loop p j w ?v2"
    using Cons.prems a
    by (subst manyJoin_loop.simps) (simp add: manyJoin_joiner_def manyJoin_parser_def)
  have "alternating p j (nextState ?v2) pairs" "\<not> isDone ?v2" "\<not> starts ?v2"
    using Cons.prems a by simp_all
  from Cons.IH [OF this] step a show ?case by simp
qed

lemma manyJoin_loop_done: "isDone v \<Longrightarrow> manyJoin_loop p j w v = Some (Returns v)"
  by (subst manyJoin_loop.simps) simp

lemma manyJoin_loop_last:
  assumes "\<not> isDone v" "\<not> starts v"
    and "j (nextState v) = Some (Returns u)" and "p u = Some (Returns f)"
    and "error u \<noteq> None \<or> error f \<noteq> None"
  shows "manyJoin_loop p j w v =
     Some (Returns (v\<lparr>nextState := f, isDone := True,
        results := results v @ (if error u = None \<and> w then [result u] else []) @
                   (if error f = None then [result f] else []),
        np := np v + (if error f = None then 1 else 0)\<rparr>))"
  using assms
  by (subst manyJoin_loop.simps)
     (auto simp add: manyJoin_joiner_def manyJoin_parser_def manyJoin_loop_done)

lemma manyJoin_loop_first_fails:
  assumes "p s = Some (Returns f0)" "error f0 \<noteq> None"
  shows "manyJoin_loop p j w \<lparr>nextState = s, results = [], isDone = False, starts = True, np = 0\<rparr>
     = Some (Returns \<lparr>nextState = f0, results = [], isDone = True, starts = False, np = 0\<rparr>)"
  using assms
  by (subst manyJoin_loop.simps)
     (auto simp add: manyJoin_joiner_def manyJoin_parser_def manyJoin_loop_done)

lemma manyJoin_loop_run:
  assumes "manyJoin_run p j s t1 pairs u f"
  shows "manyJoin_loop p j w \<lparr>nextState = s, results = [], isDone = False, starts = True, np = 0\<rparr>
     = Some (Returns \<lparr>nextState = f, results = run_results w t1 pairs u f, isDone = True,
                      starts = False, np = main_matches pairs f\<rparr>)"
proof -
  let ?v1 = "\<lparr>nextState = t1, results = [result t1], isDone = False, starts = False, np = 1\<rparr>"
  have first: "manyJoin_loop p j w
      \<lparr>nextState = s, results = [], isDone = False, starts = True, np = 0\<rparr>
      = manyJoin_loop p j w ?v1"
    using assms
    by (subst manyJoin_loop.simps) (simp add: manyJoin_run_def manyJoin_joiner_def manyJoin_parser_def)
  let ?v2 = "?v1\<lparr>nextState := last (nextState ?v1 # map snd pairs),
        results := results ?v1 @
          concat (map (\<lambda>(u', t'). (if w then [result u'] else []) @ [result t']) pairs),
        np := np ?v1 + length pairs\<rparr>"
  have mid: "manyJoin_loop p j w ?v1 = manyJoin_loop p j w ?v2"
    using assms by (intro manyJoin_loop_rounds) (simp_all add: manyJoin_run_def)
  have "manyJoin_loop p j w ?v2 =
     Some (Returns (?v2\<lparr>nextState := f, isDone := True,
        results := results ?v2 @ (if error u = None \<and> w then [result u] else []) @
                   (if error f = None then [result f] else []),
        np := np ?v2 + (if error f = None then 1 else 0)\<rparr>))"
    using assms by (intro manyJoin_loop_last) (simp_all add: manyJoin_run_def)
  with first mid show ?thesis
    by (simp add: run_results_def main_matches_def)
qed

lemma length_run_results:
  "length (run_results True t1 pairs u f) = main_matches pairs f + joiner_matches pairs u"
  "length (run_results False t1 pairs u f) = main_matches pairs f"
  by (induction pairs) (auto simp add: run_results_def main_matches_def joiner_matches_def)

text \<open>
  Claim C8. On a successful state: if the first, bare attempt of the main parser fails,
  \<^verbatim>\<open>manyJoin\<close> and \<^verbatim>\<open>manyJoinWJR\<close> return with no match, successfully exactly when
  \<open>min \<le> 0\<close>. For a run in which the bare parser succeeds, rounds of joiner then parser
  succeed, and in the last round the joiner or the parser fails, they return after that
  round; the returned state is successful exactly when the number of successful matches of
  the main parser (joiners not counted) is at least \<open>min\<close>, and then the result holds the
  values of the run in order and the index is the one of the last state.
\<close>

theorem C8_manyJoin_alternates:
  assumes "error s = None"
  shows "(parser s = Some (Returns f0) \<and> error f0 \<noteq> None \<longrightarrow>
            (\<exists>r. (if w then manyJoinWJR parser joiner mn s else manyJoin parser joiner mn s)
                    = Some (Returns r) \<and>
                  (error r = None \<longleftrightarrow> mn \<le> 0) \<and>
                  (error r = None \<longrightarrow> result r = Arr [] \<and> index r = index f0))) \<and>
         (manyJoin_run parser joiner s t1 pairs u f \<longrightarrow>
            (\<exists>r. (if w then manyJoinWJR parser joiner mn s else manyJoin parser joiner mn s)
                    = Some (Returns r) \<and>
                  (error r = None \<longleftrightarrow> mn \<le> int (main_matches pairs f)) \<and>
                  (error r = None \<longrightarrow>
                     result r = Arr (run_results w t1 pairs u f) \<and> index r = index f)))"
  using assms
  by (auto simp add: manyJoin_def manyJoinWJR_def manyJoin_internal_def
        manyJoin_loop_first_fails manyJoin_loop_run)

theorem C8_manyJoin_alternates_witness:
  "(\<exists>r. manyJoin num (str '','') 2 (state_at ''1,2,'' 0) = Some (Returns r) \<and>
        error r = None \<and> result r = Arr [Num 1, Num 2] \<and> index r = 4) \<and>
   (\<exists>r. manyJoinWJR num (str '','') 3 (state_at ''1,2,'' 0) = Some (Returns r) \<and>
        error r \<noteq> None) \<and>
   (\<exists>r. manyJoin num (str '','') 0 (state_at ''x'' 0) = Some (Returns r) \<and>
        error r = None \<and> result r = Arr [] \<and> index r = 0)"
proof -
  have a: "\<exists>r. manyJoin num (str '','') 2 (state_at ''1,2,'' 0) = Some (Returns r) \<and>
        error r = None \<and> result r = Arr [Num 1, Num 2] \<and> index r = 4"
    using C8_manyJoin_alternates
      [where s = "state_at ''1,2,'' 0" and parser = num and joiner = "str '',''" and mn = 2
         and w = False and ?f0.0 = "state_at ''1,2,'' 0" and ?t1.0 = "\<lparr>input = ''1,2,'', index = 1, result = Num 1, error = None\<rparr>"
       and pairs = "[(\<lparr>input = ''1,2,'', index = 2, result = Str '','', error = None\<rparr>,
                      \<lparr>input = ''1,2,'', index = 3, result = Num 2, error = None\<rparr>)]"
       and u = "\<lparr>input = ''1,2,'', index = 4, result = Str '','', error = None\<rparr>"
       and f = "\<lparr>input = ''1,2,'', index = 4, result = Undefined,
                  error = Some \<lparr>info = ''Unable to match'', combinator = ''num'', eindex = 4,
                                nparser = None, nmatches = None\<rparr>\<rparr>"]
    by (auto simp add: eval_nat_numeral manyJoin_run_def main_matches_def joiner_matches_def run_results_def
      num_def str_def is_digit_def num_of_digits_def state_at_def update_def errorify_def
      leaf_error_def)
  have b: "\<exists>r. manyJoinWJR num (str '','') 3 (state_at ''1,2,'' 0) = Some (Returns r) \<and>
        error r \<noteq> None"
    using C8_manyJoin_alternates
      [where s = "state_at ''1,2,'' 0" and parser = num and joiner = "str '',''" and mn = 3
         and w = True and ?f0.0 = "state_at ''1,2,'' 0" and ?t1.0 = "\<lparr>input = ''1,2,'', index = 1, result = Num 1, error = None\<rparr>"
       and pairs = "[(\<lparr>input = ''1,2,'', index = 2, result = Str '','', error = None\<rparr>,
                      \<lparr>input = ''1,2,'', index = 3, result = Num 2, error = None\<rparr>)]"
       and u = "\<lparr>input = ''1,2,'', index = 4, result = Str '','', error = None\<rparr>"
       and f = "\<lparr>input = ''1,2,'', index = 4, result = Undefined,
                  error = Some \<lparr>info = ''Unable to match'', combinator = ''num'', eindex = 4,
                                nparser = None, nmatches = None\<rparr>\<rparr>"]
    by (auto simp add: eval_nat_numeral manyJoin_run_def main_matches_def joiner_matches_def run_results_def
      num_def str_def is_digit_def num_of_digits_def state_at_def update_def errorify_def
      leaf_error_def)
  have c: "\<exists>r. manyJoin num (str '','') 0 (state_at ''x'' 0) = Some (Returns r) \<and>
        error r = None \<and> result r = Arr [] \<and> index r = 0"
    using C8_manyJoin_alternates
      [where s = "state_at ''x'' 0" and parser = num and joiner = "str '',''" and mn = 0
         and w = False and ?f0.0 = "\<lparr>input = ''x'', index = 0, result = Undefined,
                  error = Some \<lparr>info = ''Unable to match'', combinator = ''num'', eindex = 0,
                                nparser = None, nmatches = None\<rparr>\<rparr>" and ?t1.0 = "state_at ''x'' 0" and pairs = "[]"
         and u = "state_at ''x'' 0" and f = "state_at ''x'' 0"]
    by (auto simp add: eval_nat_numeral manyJoin_run_def main_matches_def joiner_matches_def run_results_def
      num_def str_def is_digit_def num_of_digits_def state_at_def update_def errorify_def
      leaf_error_def)
  from a b c show ?thesis by simp
qed

text \<open>
  Claim C10. When such a run has fewer than \<open>min\<close> matches of the main parser,
  \<^verbatim>\<open>manyJoinWJR\<close> fails with an error whose \<open>nmatches\<close> is the length of the accumulated
  results, which is the number of main matches plus the number of successful joiners, hence
  more than the number of main matches as soon as one joiner succeeded; the combinator name
  of the error is \<open>manyJoin\<close>, for \<^verbatim>\<open>manyJoinWJR\<close> and for \<^verbatim>\<open>manyJoin\<close>, also when the
  very first attempt fails.
\<close>

theorem C10_manyJoin_nmatches:
  assumes "error s = None"
  shows "(manyJoin_run parser joiner s t1 pairs u f \<and> int (main_matches pairs f) < mn \<longrightarrow>
            (\<exists>r e. manyJoinWJR parser joiner mn s = Some (Returns r) \<and> error r = Some e \<and>
               combinator e = ''manyJoin'' \<and>
               nmatches e = Some (length (run_results True t1 pairs u f)) \<and>
               length (run_results True t1 pairs u f)
                 = main_matches pairs f + joiner_matches pairs u \<and>
               (1 \<le> joiner_matches pairs u \<longrightarrow>
                  main_matches pairs f < length (run_results True t1 pairs u f))) \<and>
            (\<exists>r e. manyJoin parser joiner mn s = Some (Returns r) \<and> error r = Some e \<and>
               combinator e = ''manyJoin'')) \<and>
         (parser s = Some (Returns f0) \<and> error f0 \<noteq> None \<and> 0 < mn \<longrightarrow>
            (\<exists>r e. (if w then manyJoinWJR parser joiner mn s else manyJoin parser joiner mn s)
                      = Some (Returns r) \<and>
               error r = Some e \<and> combinator e = ''manyJoin'' \<and> nmatches e = Some 0))"
  using assms
  by (auto simp add: manyJoin_def manyJoinWJR_def manyJoin_internal_def
        manyJoin_loop_run manyJoin_loop_first_fails length_run_results)

theorem C10_manyJoin_nmatches_witness:
  "(\<exists>r e. manyJoinWJR num (str '','') 3 (state_at ''1,2,'' 0) = Some (Returns r) \<and>
        error r = Some e \<and> combinator e = ''manyJoin'' \<and> nmatches e = Some 4) \<and>
   (\<exists>r e. manyJoin num (str '','') 1 (state_at ''x'' 0) = Some (Returns r) \<and>
        error r = Some e \<and> combinator e = ''manyJoin'' \<and> nmatches e = Some 0)"
proof -
  have a: "\<exists>r e. manyJoinWJR num (str '','') 3 (state_at ''1,2,'' 0) = Some (Returns r) \<and>
        error r = Some e \<and> combinator e = ''manyJoin'' \<and> nmatches e = Some 4"
    using C10_manyJoin_nmatches
      [where s = "state_at ''1,2,'' 0" and parser = num and joiner = "str '',''" and mn = 3
         and w = True and ?f0.0 = "state_at ''1,2,'' 0" and ?t1.0 = "\<lparr>input = ''1,2,'', index = 1, result = Num 1, error = None\<rparr>"
       and pairs = "[(\<lparr>input = ''1,2,'', index = 2, result = Str '','', error = None\<rparr>,
                      \<lparr>input = ''1,2,'', index = 3, result = Num 2, error = None\<rparr>)]"
       and u = "\<lparr>input = ''1,2,'', index = 4, result = Str '','', error = None\<rparr>"
       and f = "\<lparr>input = ''1,2,'', index = 4, result = Undefined,
                  error = Some \<lparr>info = ''Unable to match'', combinator = ''num'', eindex = 4,
                                nparser = None, nmatches = None\<rparr>\<rparr>"]
    by (auto simp add: eval_nat_numeral manyJoin_run_def main_matches_def joiner_matches_def run_results_def
      num_def str_def is_digit_def num_of_digits_def state_at_def update_def errorify_def
      leaf_error_def)
  have b: "\<exists>r e. manyJoin num (str '','') 1 (state_at ''x'' 0) = Some (Returns r) \<and>
        error r = Some e \<and> combinator e = ''manyJoin'' \<and> nmatches e = Some 0"
    using C10_manyJoin_nmatches
      [where s = "state_at ''x'' 0" and parser = num and joiner = "str '',''" and mn = 1
         and w = False and ?f0.0 = "\<lparr>input = ''x'', index = 0, result = Undefined,
                  error = Some \<lparr>info = ''Unable to match'', combinator = ''num'', eindex = 0,
                                nparser = None, nmatches = None\<rparr>\<rparr>" and ?t1.0 = "state_at ''x'' 0" and pairs = "[]"
         and u = "state_at ''x'' 0" and f = "state_at ''x'' 0"]
    by (auto simp add: eval_nat_numeral manyJoin_run_def main_matches_def joiner_matches_def run_results_def
      num_def str_def is_digit_def num_of_digits_def state_at_def update_def errorify_def
      leaf_error_def)
  from a b show ?thesis by simp
qed

section \<open>contextual: throwing and failing\<close>

lemma run_gen_step:
  "p s = Some (Returns n) \<Longrightarrow> error n = None \<Longrightarrow>
   run_gen (GYield (YParser p) resume) s =
     (case run_gen (resume (result n)) n of
        None \<Rightarrow> None
      | Some (Throws msg) \<Rightarrow> Some (Throws msg)
      | Some (Returns r) \<Rightarrow>
          if error r \<noteq> None then Some (Returns (errorify r (restamp ''contextual'' r)))
          else Some (Returns r))"
  by (simp add: run_gen_def mapError_def chain_def split: outcome.splits option.splits)

lemma run_gen_throws:
  "generator_after g s ns = Some (GYield (YOther x) resume, s') \<Longrightarrow>
   run_gen g s = Some (Throws ''contextual: yielded values must always be parsers'')"
proof (induction g s ns rule: generator_after.induct)
  case (1 g s)
  then show ?case by (simp add: run_gen_def)
next
  case (2 p resume s n ns)
  then show ?case by (simp add: run_gen_step split: if_splits)
qed simp_all

lemma run_gen_fails:
  "generator_after g s ns = Some (GYield (YParser p) resume, s') \<Longrightarrow>
   p s' = Some (Returns f) \<Longrightarrow> error f = Some e \<Longrightarrow>
   run_gen g s = Some (Returns (errorify f (e\<lparr>combinator := ''contextual''\<rparr>)))"
proof (induction g s ns rule: generator_after.induct)
  case (1 g s)
  then show ?case by (simp add: run_gen_def mapError_def chain_def restamp_def)
next
  case (2 p resume s n ns)
  then show ?case by (simp add: run_gen_step restamp_def errorify_def split: if_splits)
qed simp_all

lemma contextual_run_gen: "contextual g s = run_gen g (resultify s Undefined)"
  by (simp add: contextual_def chain_def void_def run_gen_def)

text \<open>
  Claim C9. Run \<^verbatim>\<open>contextual\<close> on a successful state and let the generator yield
  parsers that succeed one after the other. If it then yields a value that is not a parser,
  the combinator throws (it returns no state, erroring or not). If it then yields a parser
  that fails with error \<open>e\<close> in state \<open>f\<close>, the combinator returns \<open>f\<close> failed with \<open>e\<close>
  re-stamped with combinator name \<open>contextual\<close>.
\<close>

theorem C9_contextual:
  assumes "error s = None"
  shows "(generator_after g (resultify s Undefined) ns = Some (GYield (YOther x) resume, s') \<longrightarrow>
            contextual g s = Some (Throws ''contextual: yielded values must always be parsers'')) \<and>
         (generator_after g (resultify s Undefined) ns = Some (GYield (YParser p) resume, s') \<and>
          p s' = Some (Returns f) \<and> error f = Some e \<longrightarrow>
            contextual g s = Some (Returns (errorify f (e\<lparr>combinator := ''contextual''\<rparr>))))"
  by (auto simp add: contextual_run_gen run_gen_throws intro: run_gen_fails)


theorem C9_contextual_witness:
  "contextual (GYield (YParser num) (\<lambda>v. GYield (YOther v) (\<lambda>v'. GDone v)))
      (state_at ''1,2'' 0)
     = Some (Throws ''contextual: yielded values must always be parsers'') \<and>
   contextual (GYield (YParser num) (\<lambda>v. GYield (YParser (str ''x'')) (\<lambda>v'. GDone v)))
      (state_at ''1,2'' 0)
     = Some (Returns \<lparr>input = ''1,2'', index = 1, result = Undefined,
          error = Some \<lparr>info = ''Unable to match'', combinator = ''contextual'', eindex = 1,
                        nparser = None, nmatches = None\<rparr>\<rparr>)"
proof -
  have a: "contextual (GYield (YParser num) (\<lambda>v. GYield (YOther v) (\<lambda>v'. GDone v)))
      (state_at ''1,2'' 0)
     = Some (Throws ''contextual: yielded values must always be parsers'')"
    using C9_contextual
      [where s = "state_at ''1,2'' 0"
         and g = "GYield (YParser num) (\<lambda>v. GYield (YOther v) (\<lambda>v'. GDone v))"
         and ns = "[\<lparr>input = ''1,2'', index = 1, result = Num 1, error = None\<rparr>]"
         and x = "Num 1" and resume = "\<lambda>v'. GDone (Num 1)"
         and s' = "\<lparr>input = ''1,2'', index = 1, result = Num 1, error = None\<rparr>"
         and p = num and f = "state_at ''1,2'' 0"
         and e = "leaf_error ''str'' (state_at ''1,2'' 0)"]
    by (simp add: num_def is_digit_def num_of_digits_def state_at_def update_def
        resultify_def)
  have b: "contextual (GYield (YParser num) (\<lambda>v. GYield (YParser (str ''x'')) (\<lambda>v'. GDone v)))
      (state_at ''1,2'' 0)
     = Some (Returns \<lparr>input = ''1,2'', index = 1, result = Undefined,
          error = Some \<lparr>info = ''Unable to match'', combinator = ''contextual'', eindex = 1,
                        nparser = None, nmatches = None\<rparr>\<rparr>)"
    using C9_contextual
      [where s = "state_at ''1,2'' 0"
         and g = "GYield (YParser num) (\<lambda>v. GYield (YParser (str ''x'')) (\<lambda>v'. GDone v))"
         and ns = "[\<lparr>input = ''1,2'', index = 1, result = Num 1, error = None\<rparr>]"
         and x = "Num 1" and resume = "\<lambda>v'. GDone (Num 1)"
         and s' = "\<lparr>input = ''1,2'', index = 1, result = Num 1, error = None\<rparr>"
         and p = "str ''x''"
         and f = "\<lparr>input = ''1,2'', index = 1, result = Undefined,
                   error = Some \<lparr>info = ''Unable to match'', combinator = ''str'', eindex = 1,
                                 nparser = None, nmatches = None\<rparr>\<rparr>"
         and e = "\<lparr>info = ''Unable to match'', combinator = ''str'', eindex = 1,
                                 nparser = None, nmatches = None\<rparr>"]
    by (simp add: num_def str_def is_digit_def num_of_digits_def state_at_def update_def
        resultify_def errorify_def leaf_error_def)
  from a b show ?thesis by simp
qed

end
